theory Spec2Isabelle
  imports Main "HOL-Library.Word" "HOL-Library.Signed_Division" "HOL-Library.Sublist"
begin

section \<open>Rate-limit retry transport of packwiz (modrinth/ratelimit.go)\<close>

text \<open>
  A shallow embedding of \<^verbatim>\<open>src/modrinth/ratelimit.go\<close>: the functions
  \<^verbatim>\<open>extractWaitTime\<close>, \<^verbatim>\<open>RoundTrip\<close> and \<^verbatim>\<open>newRateLimitHTTPClient\<close>.

  Go's \<^verbatim>\<open>time.Duration\<close> is an \<^verbatim>\<open>int64\<close> count of nanoseconds: it is a
  64-bit word here, read with \<open>sint\<close>; \<open>+\<close> and \<open>*\<close> wrap as Go's do. The backoff
  \<^verbatim>\<open>time.Duration(100*(1<<uint(attempt)))\<close> is computed in the same type: the untyped
  constants of a non-constant shift take the type of the conversion around them. The loop
  counter \<^verbatim>\<open>attempt\<close> and \<^verbatim>\<open>MaxRetries\<close> are \<open>int\<close>: the counter runs from 0 to at
  most \<^verbatim>\<open>MaxRetries\<close>, so its increment never wraps.

  What the file calls from Go's library is modelled by what it does here: the two regular
  expressions, \<^verbatim>\<open>strconv.ParseInt\<close>, \<^verbatim>\<open>fmt\<close>'s \<^verbatim>\<open>%d\<close>, \<^verbatim>\<open>io.ReadAll\<close>,
  \<^verbatim>\<open>time.Sleep\<close>; the delegate transport and the floating-point functions are parameters.
\<close>

subsection \<open>Durations\<close>

type_synonym Duration = "64 word"

definition Millisecond :: Duration where
  "Millisecond = 1000000"

definition Second :: Duration where
  "Second = 1000000000"

text \<open>Go's \<^verbatim>\<open>/\<close> on signed integers truncates towards zero.\<close>

definition quo :: "Duration \<Rightarrow> Duration \<Rightarrow> Duration" where
  "quo a b = word_of_int (sint a sdiv sint b)"

subsection \<open>strconv.ParseInt(s, 10, 64)\<close>

definition isDigit :: "char \<Rightarrow> bool" where
  "isDigit c = (48 \<le> (of_char c :: nat) \<and> (of_char c :: nat) \<le> 57)"

definition digitVal :: "char \<Rightarrow> nat" where
  "digitVal c = of_char c - 48"

text \<open>The value of a string of decimal digits, most significant digit first.\<close>

definition decimal :: "string \<Rightarrow> nat" where
  "decimal ds = foldl (\<lambda>n c. 10 * n + digitVal c) 0 ds"

text \<open>
  \<^verbatim>\<open>strconv.ParseInt\<close> in base 10 with bit size 64: an optional sign, then one or more
  decimal digits; a syntax error or a value outside the \<^verbatim>\<open>int64\<close> range is an error
  (\<open>None\<close>).
\<close>

definition ParseInt :: "string \<Rightarrow> 64 word option" where
  "ParseInt s =
     (let neg = (s \<noteq> [] \<and> hd s = CHR ''-'');
          ds = (if s \<noteq> [] \<and> (hd s = CHR ''-'' \<or> hd s = CHR ''+'') then tl s else s)
      in if ds = [] \<or> \<not> list_all isDigit ds then None
         else if \<not> neg \<and> decimal ds < 2 ^ 63 then Some (word_of_nat (decimal ds))
         else if neg \<and> decimal ds \<le> 2 ^ 63 then Some (- word_of_nat (decimal ds))
         else None)"

subsection \<open>The two regular expressions\<close>

text \<open>
  The two patterns of \<^verbatim>\<open>extractWaitTime\<close> are \<^verbatim>\<open>Please wait (\d+) milliseconds?\<close>
  and \<^verbatim>\<open>Please wait (\d+) seconds?\<close>; they differ in the unit word only, and a pattern
  is represented by its unit word without the optional \<^verbatim>\<open>s\<close>.

  \<open>matchAt unit s\<close> matches the pattern at the very start of \<open>s\<close>: the literal
  \<^verbatim>\<open>Please wait \<close>, a run of ASCII digits (\<^verbatim>\<open>\d\<close> is \<^verbatim>\<open>[0-9]\<close> in Go), a space and
  the unit word, then the optional \<^verbatim>\<open>s\<close>. The digit run is the whole run: the
  character after the group must be a space, so no shorter run can match. The result is
  what \<^verbatim>\<open>FindStringSubmatch\<close> returns: the matched text and the text of group 1.
\<close>

definition matchAt :: "string \<Rightarrow> string \<Rightarrow> string list option" where
  "matchAt unit s =
     (if prefix ''Please wait '' s then
        (let r = drop 12 s;
             ds = takeWhile isDigit r;
             r' = dropWhile isDigit r
         in if ds \<noteq> [] \<and> prefix ('' '' @ unit) r' then
              (let opt = (if prefix ''s'' (drop (Suc (length unit)) r') then ''s'' else '''')
               in Some [''Please wait '' @ ds @ '' '' @ unit @ opt, ds])
            else None)
      else None)"

text \<open>
  \<^verbatim>\<open>FindStringSubmatch\<close> returns the leftmost match: the positions of the body are
  tried from left to right. No match is \<^verbatim>\<open>nil\<close>, the empty list.
\<close>

fun FindStringSubmatch :: "string \<Rightarrow> string \<Rightarrow> string list" where
  "FindStringSubmatch unit [] = (case matchAt unit [] of Some m \<Rightarrow> m | None \<Rightarrow> [])"
| "FindStringSubmatch unit (c # cs) =
     (case matchAt unit (c # cs) of Some m \<Rightarrow> m | None \<Rightarrow> FindStringSubmatch unit cs)"

subsection \<open>extractWaitTime\<close>

definition patterns :: "string list" where
  "patterns = [''millisecond'', ''second'']"

text \<open>The \<^verbatim>\<open>for i, pattern := range patterns\<close> loop, over the indexed patterns.\<close>

fun extractLoop :: "(nat \<times> string) list \<Rightarrow> string \<Rightarrow> Duration" where
  "extractLoop [] body = 0"
| "extractLoop ((i, pattern) # ps) body =
     (let matches = FindStringSubmatch pattern body
      in if length matches \<ge> 2 then
           (case ParseInt (matches ! 1) of
              Some v \<Rightarrow> if i = 0 then v * Millisecond else v * Second
            | None \<Rightarrow> extractLoop ps body)
         else extractLoop ps body)"

definition extractWaitTime :: "string \<Rightarrow> Duration" where
  "extractWaitTime body = extractLoop (enumerate 0 patterns) body"

subsection \<open>Requests, responses, errors\<close>

text \<open>
  A request carries its context; of the context only the deadline matters here (the
  instant, on the clock of the world below, at which the context expires; \<open>None\<close>: it
  never does). \<^verbatim>\<open>req.Clone(ctx)\<close> copies the request and gives the copy the context.
\<close>

record Context =
  Deadline :: "int option"

record Request =
  Method :: string
  URL :: string
  ctx :: Context

definition Clone :: "Request \<Rightarrow> Context \<Rightarrow> Request" where
  "Clone r c = r\<lparr>ctx := c\<rparr>"

text \<open>
  Error values. \<open>ForeignError\<close> is an error made outside this file (by the delegate
  transport or by the reader of a response body), known by its text; the other two are the
  errors that \<^verbatim>\<open>RoundTrip\<close> makes with \<^verbatim>\<open>fmt.Errorf\<close>.
\<close>

datatype error =
  ForeignError string
| ReadFailed error
| RateLimitExceeded int




text \<open>
  A response: the status code, the header (a Go \<^verbatim>\<open>map[string][]string\<close>, here an
  association list), and the body stream: the bytes it still holds, the error its reading
  ends with (if any), and whether it has been closed.
\<close>

record Response =
  StatusCode :: int
  Header :: "(string \<times> string list) list"
  Body :: string
  BodyErr :: "error option"
  Closed :: bool

definition StatusTooManyRequests :: int where
  "StatusTooManyRequests = 429"

text \<open>\<^verbatim>\<open>Header.Get\<close>: the first value of the key, or the empty string.\<close>

definition Get :: "(string \<times> string list) list \<Rightarrow> string \<Rightarrow> string" where
  "Get h key = (case map_of h key of Some (v # vs) \<Rightarrow> v | _ \<Rightarrow> [])"

text \<open>
  \<^verbatim>\<open>io.ReadAll(resp.Body)\<close> returns the bytes read and the error, and leaves the stream
  drained; \<^verbatim>\<open>resp.Body.Close()\<close> closes it.
\<close>

definition ReadAll :: "Response \<Rightarrow> string \<times> error option \<times> Response" where
  "ReadAll r = (Body r, BodyErr r, r\<lparr>Body := []\<rparr>)"

definition Close :: "Response \<Rightarrow> Response" where
  "Close r = r\<lparr>Closed := True\<rparr>"

subsection \<open>The world: clock and observable events\<close>

text \<open>
  What a call does besides returning is recorded in a world: a clock in nanoseconds, and
  the log of the dispatches through the delegate transport (each with the time it was made
  at), the progress lines printed and the sleeps. \<^verbatim>\<open>time.Sleep d\<close> pauses for at least
  \<open>d\<close> and returns at once when \<open>d\<close> is zero or negative; nothing else advances the clock.
  The progress line is recorded by its three arguments rather than as text.
\<close>

datatype event =
  Dispatch Request int
| Printf Duration int int
| Sleep Duration

record world =
  clock :: int
  log :: "event list"

definition dispatched :: "Request \<Rightarrow> world \<Rightarrow> world" where
  "dispatched r w = w\<lparr>log := log w @ [Dispatch r (clock w)]\<rparr>"

definition printf :: "Duration \<Rightarrow> int \<Rightarrow> int \<Rightarrow> world \<Rightarrow> world" where
  "printf d a m w = w\<lparr>log := log w @ [Printf d a m]\<rparr>"

definition sleep :: "Duration \<Rightarrow> world \<Rightarrow> world" where
  "sleep d w = w\<lparr>clock := clock w + max 0 (sint d), log := log w @ [Sleep d]\<rparr>"

text \<open>
  An \<^verbatim>\<open>http.RoundTripper\<close>: given a request, and depending on the time and on what has
  happened so far, it returns a response and an error, either of which may be \<^verbatim>\<open>nil\<close>.
\<close>

type_synonym RoundTripper = "Request \<Rightarrow> world \<Rightarrow> Response option \<times> error option"

record rateLimitTransport =
  Transport :: "RoundTripper option"
  MaxRetries :: int

text \<open>
  What this file takes from outside: \<^verbatim>\<open>http.DefaultTransport\<close>, and the floating-point
  functions \<^verbatim>\<open>strconv.ParseFloat(s, 64)\<close> (\<open>None\<close>: a parse error) and the conversion
  \<^verbatim>\<open>time.Duration(seconds * float64(time.Second))\<close>, over a type \<open>'f\<close> of floats.
\<close>

record 'f env =
  DefaultTransport :: RoundTripper
  ParseFloat :: "string \<Rightarrow> 'f option"
  secondsToDuration :: "'f \<Rightarrow> Duration"

subsection \<open>RoundTrip\<close>

text \<open>The \<^verbatim>\<open>Retry-After\<close> step (lines 56 to 62).\<close>

definition retryAfterWait :: "'f env \<Rightarrow> Response \<Rightarrow> Duration \<Rightarrow> Duration" where
  "retryAfterWait E resp waitTime =
     (if waitTime = 0 then
        (let retryAfter = Get (Header resp) ''Retry-After''
         in if retryAfter \<noteq> [] then
              (case ParseFloat E retryAfter of
                 Some seconds \<Rightarrow> secondsToDuration E seconds
               | None \<Rightarrow> waitTime)
            else waitTime)
      else waitTime)"

text \<open>
  The fallback (lines 65 to 67): \<^verbatim>\<open>time.Duration(100*(1<<uint(attempt))) * time.Millisecond\<close>.
  \<^verbatim>\<open>uint(attempt)\<close> is the counter modulo \<open>2 ^ 64\<close>, and a shift by 64 or more gives 0.
\<close>

definition backoff :: "int \<Rightarrow> Duration" where
  "backoff attempt = (100 * push_bit (nat (attempt mod 2 ^ 64)) 1) * Millisecond"

definition fallbackWait :: "int \<Rightarrow> Duration \<Rightarrow> Duration" where
  "fallbackWait attempt waitTime = (if waitTime = 0 then backoff attempt else waitTime)"

text \<open>The buffer (line 70): \<^verbatim>\<open>waitTime + (waitTime / 10) + (50 * time.Millisecond)\<close>.\<close>

definition addBuffer :: "Duration \<Rightarrow> Duration" where
  "addBuffer waitTime = waitTime + quo waitTime 10 + 50 * Millisecond"

text \<open>The wait computed from a 429 response whose body has been read (lines 53 to 70).\<close>

definition computeWait :: "'f env \<Rightarrow> Response \<Rightarrow> string \<Rightarrow> int \<Rightarrow> Duration" where
  "computeWait E resp bodyStr attempt =
     addBuffer (fallbackWait attempt (retryAfterWait E resp (extractWaitTime bodyStr)))"

text \<open>
  What a function returns: Go's pair of a response and an error, or a panic (a call
  through a nil interface, or a field read through a nil pointer).
\<close>

datatype result = Return "Response option" "error option" | Panic

text \<open>
  One iteration of the loop (lines 31 to 84): it either leaves \<^verbatim>\<open>RoundTrip\<close> with a
  result, or reaches \<^verbatim>\<open>continue\<close> with the response left in the variable \<^verbatim>\<open>resp\<close>.
\<close>

datatype iteration = Leave result | Continue Response

definition attemptOnce ::
  "'f env \<Rightarrow> rateLimitTransport \<Rightarrow> Request \<Rightarrow> int \<Rightarrow> world \<Rightarrow> iteration \<times> world" where
  "attemptOnce E t req attempt w =
     (let reqClone = Clone req (ctx req) in
      case Transport t of
        None \<Rightarrow> (Leave Panic, w)
      | Some rt \<Rightarrow>
         (let (resp, err) = rt reqClone w;
              w1 = dispatched reqClone w
          in case err of
               Some e \<Rightarrow> (Leave (Return resp err), w1)
             | None \<Rightarrow>
                (case resp of
                   None \<Rightarrow> (Leave Panic, w1)
                 | Some r \<Rightarrow>
                    if StatusCode r = StatusTooManyRequests then
                      (let (bodyBytes, readErr, r1) = ReadAll r;
                           r2 = Close r1
                       in case readErr of
                            Some e \<Rightarrow> (Leave (Return (Some r2) (Some (ReadFailed e))), w1)
                          | None \<Rightarrow>
                             (let waitTime = computeWait E r2 bodyBytes attempt
                              in if attempt < MaxRetries t then
                                   (Continue r2,
                                    sleep waitTime
                                      (printf waitTime (attempt + 1) (MaxRetries t) w1))
                                 else
                                   (Leave (Return (Some r2)
                                      (Some (RateLimitExceeded (MaxRetries t)))), w1)))
                    else (Leave (Return (Some r) None), w1))))"

text \<open>
  The loop \<^verbatim>\<open>for attempt := 0; attempt <= t.MaxRetries; attempt++\<close>, with the variables
  \<^verbatim>\<open>resp\<close> and \<^verbatim>\<open>err\<close> that the statement after the loop returns.
\<close>

function retryLoop ::
  "'f env \<Rightarrow> rateLimitTransport \<Rightarrow> Request \<Rightarrow> int \<Rightarrow> Response option \<Rightarrow> error option \<Rightarrow> world
     \<Rightarrow> result \<times> world" where
  "retryLoop E t req attempt resp err w =
     (if attempt \<le> MaxRetries t then
        (case attemptOnce E t req attempt w of
           (Leave res, w') \<Rightarrow> (res, w')
         | (Continue r, w') \<Rightarrow> retryLoop E t req (attempt + 1) (Some r) None w')
      else (Return resp err, w))"
  by pat_completeness auto
termination
  by (relation "measure (\<lambda>(E, t, req, attempt, resp, err, w). nat (MaxRetries t + 1 - attempt))")
     auto

text \<open>The defaults that \<^verbatim>\<open>RoundTrip\<close> writes into its receiver (lines 20 to 25).\<close>

definition setDefaults :: "'f env \<Rightarrow> rateLimitTransport \<Rightarrow> rateLimitTransport" where
  "setDefaults E t =
     (let t1 = (if Transport t = None then t\<lparr>Transport := Some (DefaultTransport E)\<rparr> else t)
      in if MaxRetries t1 = 0 then t1\<lparr>MaxRetries := 5\<rparr> else t1)"

text \<open>
  \<^verbatim>\<open>RoundTrip\<close> has a pointer receiver: it returns its result together with the
  receiver's fields and the world as the call leaves them.
\<close>

definition RoundTrip ::
  "'f env \<Rightarrow> rateLimitTransport \<Rightarrow> Request \<Rightarrow> world \<Rightarrow> result \<times> rateLimitTransport \<times> world" where
  "RoundTrip E t req w =
     (let t' = setDefaults E t;
          (res, w') = retryLoop E t' req 0 None None w
      in (res, t', w'))"

subsection \<open>newRateLimitHTTPClient\<close>

text \<open>The \<^verbatim>\<open>http.Client\<close> is represented by its transport.\<close>

definition newRateLimitHTTPClient :: "'f env \<Rightarrow> rateLimitTransport" where
  "newRateLimitHTTPClient E = \<lparr>Transport = Some (DefaultTransport E), MaxRetries = 100\<rparr>"

subsection \<open>Notions used to state the properties\<close>

text \<open>
  The body \<open>body\<close> holds, right after the text \<open>pre\<close>, the phrase
  \<^verbatim>\<open>Please wait N unit\<close> whose number \<open>N\<close> is written with the digits \<open>ds\<close>.
\<close>

definition phraseAt :: "string \<Rightarrow> string \<Rightarrow> string \<Rightarrow> string \<Rightarrow> bool" where
  "phraseAt unit body pre ds \<longleftrightarrow>
     ds \<noteq> [] \<and> list_all isDigit ds \<and> prefix (pre @ ''Please wait '' @ ds @ '' '' @ unit) body"

text \<open>A phrase starts right after \<open>pre\<close>; the body holds a phrase somewhere.\<close>

definition phraseStartsAt :: "string \<Rightarrow> string \<Rightarrow> string \<Rightarrow> bool" where
  "phraseStartsAt unit body pre \<longleftrightarrow>
     (\<exists>ds \<in> set (prefixes (drop (length pre + 12) body)). phraseAt unit body pre ds)"

definition hasPhrase :: "string \<Rightarrow> string \<Rightarrow> bool" where
  "hasPhrase unit body \<longleftrightarrow> (\<exists>pre \<in> set (prefixes body). phraseStartsAt unit body pre)"

text \<open>The phrase after \<open>pre\<close> is the leftmost one of the body: none starts earlier.\<close>

definition leftmostPhrase :: "string \<Rightarrow> string \<Rightarrow> string \<Rightarrow> string \<Rightarrow> bool" where
  "leftmostPhrase unit body pre ds \<longleftrightarrow>
     phraseAt unit body pre ds \<and>
     (\<forall>pre' \<in> set (prefixes pre). pre' \<noteq> pre \<longrightarrow> \<not> phraseStartsAt unit body pre')"

text \<open>The number of dispatches through the delegate transport that a log records.\<close>

fun isDispatch :: "event \<Rightarrow> bool" where
  "isDispatch (Dispatch r c) = True"
| "isDispatch (Printf d a m) = False"
| "isDispatch (Sleep d) = False"

definition dispatches :: "world \<Rightarrow> nat" where
  "dispatches w = length (filter isDispatch (log w))"

text \<open>
  The delegate transport in force during a call: the configured one, or
  \<^verbatim>\<open>http.DefaultTransport\<close> when that is nil.
\<close>

definition delegate :: "'f env \<Rightarrow> rateLimitTransport \<Rightarrow> RoundTripper" where
  "delegate E t = (case Transport t of None \<Rightarrow> DefaultTransport E | Some rt \<Rightarrow> rt)"

text \<open>A 429 response after its body has been read and closed.\<close>

definition drained :: "Response \<Rightarrow> Response" where
  "drained r = r\<lparr>Body := [], Closed := True\<rparr>"

text \<open>The retry ceiling in force during a call: the configured one, or 5 when that is 0.\<close>

definition retryCeiling :: "rateLimitTransport \<Rightarrow> int" where
  "retryCeiling t = (if MaxRetries t = 0 then 5 else MaxRetries t)"

subsection \<open>Example values\<close>

text \<open>
  A delegate that answers its n-th dispatch with the n-th entry of a script, and every
  later dispatch with the last entry.
\<close>

definition scripted :: "(Response option \<times> error option) list \<Rightarrow> RoundTripper" where
  "scripted outs r w = outs ! min (dispatches w) (length outs - 1)"

definition refused :: RoundTripper where
  "refused r w = (None, Some (ForeignError ''connection refused''))"

text \<open>
  An environment whose floats are whole numbers of seconds: \<open>ParseFloat\<close> accepts
  strings of digits only.
\<close>

definition wholeSeconds :: "int env" where
  "wholeSeconds =
     \<lparr>DefaultTransport = refused,
      ParseFloat = (\<lambda>s. if s \<noteq> [] \<and> list_all isDigit s then Some (int (decimal s)) else None),
      secondsToDuration = (\<lambda>i. word_of_int i * Second)\<rparr>"

definition tooMany :: "(string \<times> string list) list \<Rightarrow> string \<Rightarrow> Response" where
  "tooMany h b = \<lparr>StatusCode = 429, Header = h, Body = b, BodyErr = None, Closed = False\<rparr>"


text \<open>
  A transport whose delegate answers every dispatch with a 429 response that carries no
  hint, and one whose delegate answers with a 429 response whose body cannot be read.
\<close>

definition alwaysLimited :: "int \<Rightarrow> rateLimitTransport" where
  "alwaysLimited m = \<lparr>Transport = Some (scripted [(Some (tooMany [] ''{}''), None)]), MaxRetries = m\<rparr>"


definition serverError :: Response where
  "serverError = \<lparr>StatusCode = 500, Header = [], Body = ''internal_server_error'',
                   BodyErr = None, Closed = False\<rparr>"

text \<open>A 429 response whose \<^verbatim>\<open>Retry-After\<close> header is an HTTP-date.\<close>

definition dated :: Response where
  "dated = tooMany [(''Retry-After'', [''Wed, 21 Oct 2015 07:28:00 GMT''])] ''{}''"



definition getReq :: "int option \<Rightarrow> Request" where
  "getReq dl = \<lparr>Method = ''GET'', URL = ''https://api.modrinth.com/v2/project'',
                ctx = \<lparr>Deadline = dl\<rparr>\<rparr>"

definition start :: world where
  "start = \<lparr>clock = 0, log = []\<rparr>"

section \<open>Properties\<close>

declare retryLoop.simps [simp del]

subsection \<open>The patterns find the leftmost phrase\<close>

lemma isDigit_simps [simp]: "\<not> isDigit CHR '' ''" "\<not> isDigit CHR ''-''" "\<not> isDigit CHR ''+''"
  by (simp_all add: isDigit_def)

lemma takeWhile_digits:
  "list_all isDigit ds \<Longrightarrow> takeWhile isDigit (ds @ CHR '' '' # rest) = ds"
  by (induction ds) simp_all

lemma dropWhile_digits:
  "list_all isDigit ds \<Longrightarrow> dropWhile isDigit (ds @ CHR '' '' # rest) = CHR '' '' # rest"
  by (induction ds) simp_all

lemma matchAt_phrase:
  assumes "ds \<noteq> []" "list_all isDigit ds"
  shows "\<exists>whole. matchAt unit (''Please wait '' @ ds @ '' '' @ unit @ post) = Some [whole, ds]"
  using assms by (simp add: matchAt_def Let_def takeWhile_digits dropWhile_digits)

lemma matchAt_SomeD:
  assumes "matchAt unit s = Some m"
  shows "\<exists>whole ds. m = [whole, ds] \<and> ds \<noteq> [] \<and> list_all isDigit ds
           \<and> prefix (''Please wait '' @ ds @ '' '' @ unit) s"
proof -
  define r where "r = drop 12 s"
  define d where "d = takeWhile isDigit r"
  from assms have p: "prefix ''Please wait '' s"
    by (simp add: matchAt_def split: if_splits)
  with assms have ne: "d \<noteq> []" and q: "prefix ('' '' @ unit) (dropWhile isDigit r)"
    by (simp_all add: matchAt_def Let_def r_def d_def split: if_splits)
  from p have s: "s = ''Please wait '' @ r"
    by (auto simp: prefix_def r_def)
  from q obtain z where "dropWhile isDigit r = '' '' @ unit @ z"
    by (auto simp: prefix_def)
  then have "r = d @ '' '' @ unit @ z"
    unfolding d_def by (metis takeWhile_dropWhile_id)
  with s have "prefix (''Please wait '' @ d @ '' '' @ unit) s"
    by (simp add: prefix_def)
  moreover have "list_all isDigit d"
    unfolding d_def by (simp add: list_all_iff) (meson set_takeWhileD)
  moreover from assms p ne q have "\<exists>whole. m = [whole, d]"
    by (auto simp: matchAt_def Let_def r_def d_def split: if_splits)
  ultimately show ?thesis using ne by blast
qed

lemma phraseAt_Nil_iff:
  "(\<exists>ds. phraseAt unit s [] ds) \<longleftrightarrow> matchAt unit s \<noteq> None"
proof
  assume "\<exists>ds. phraseAt unit s [] ds"
  then obtain ds post where "ds \<noteq> []" "list_all isDigit ds"
    "s = ''Please wait '' @ ds @ '' '' @ unit @ post"
    by (auto simp: phraseAt_def prefix_def)
  then show "matchAt unit s \<noteq> None"
    using matchAt_phrase [of ds unit post] by auto
next
  assume "matchAt unit s \<noteq> None"
  then show "\<exists>ds. phraseAt unit s [] ds"
    using matchAt_SomeD [of unit s] by (auto simp: phraseAt_def)
qed

lemma phraseAt_Cons:
  "phraseAt unit (c # s) (c' # pre) ds \<longleftrightarrow> c' = c \<and> phraseAt unit s pre ds"
  by (auto simp: phraseAt_def)

lemma phraseAt_Nil_body: "\<not> phraseAt unit [] pre ds"
  by (simp add: phraseAt_def)

lemma Find_Nil_iff:
  "FindStringSubmatch unit body = [] \<longleftrightarrow> \<not> (\<exists>pre ds. phraseAt unit body pre ds)"
proof (induction body)
  case Nil
  then show ?case
    by (simp add: phraseAt_Nil_body matchAt_def)
next
  case (Cons c cs)
  show ?case
  proof (cases "matchAt unit (c # cs)")
    case None
    then have no: "\<not> (\<exists>ds. phraseAt unit (c # cs) [] ds)"
      by (simp add: phraseAt_Nil_iff)
    have "(\<exists>pre ds. phraseAt unit (c # cs) pre ds) \<longleftrightarrow> (\<exists>pre ds. phraseAt unit cs pre ds)"
    proof
      assume "\<exists>pre ds. phraseAt unit (c # cs) pre ds"
      then obtain pre ds where h: "phraseAt unit (c # cs) pre ds" by blast
      with no obtain c' pre' where "pre = c' # pre'" by (cases pre) auto
      with h show "\<exists>pre ds. phraseAt unit cs pre ds" by (auto simp: phraseAt_Cons)
    next
      assume "\<exists>pre ds. phraseAt unit cs pre ds"
      then obtain pre ds where "phraseAt unit cs pre ds" by blast
      then have "phraseAt unit (c # cs) (c # pre) ds" by (simp add: phraseAt_Cons)
      then show "\<exists>pre ds. phraseAt unit (c # cs) pre ds" by blast
    qed
    with None Cons show ?thesis by simp
  next
    case (Some m)
    then have "\<exists>ds. phraseAt unit (c # cs) [] ds"
      using phraseAt_Nil_iff [of unit "c # cs"] by simp
    moreover from Some have "m \<noteq> []"
      using matchAt_SomeD [of unit "c # cs" m] by auto
    ultimately show ?thesis using Some by auto
  qed
qed

lemma Find_leftmost:
  assumes "phraseAt unit body pre ds"
    and "\<forall>pre' ds'. phraseAt unit body pre' ds' \<longrightarrow> length pre \<le> length pre'"
  shows "\<exists>whole. FindStringSubmatch unit body = [whole, ds]"
  using assms
proof (induction pre arbitrary: body)
  case Nil
  then obtain post where b: "body = ''Please wait '' @ ds @ '' '' @ unit @ post"
    and d: "ds \<noteq> []" "list_all isDigit ds"
    by (auto simp: phraseAt_def prefix_def)
  from matchAt_phrase [OF d, of unit post] b obtain whole where
    "matchAt unit body = Some [whole, ds]" by auto
  then show ?case by (cases body) auto
next
  case (Cons c pre)
  from Cons.prems(1) obtain cs where b: "body = c # cs"
    by (cases body) (auto simp: phraseAt_def)
  have "matchAt unit body = None"
  proof (rule ccontr)
    assume "matchAt unit body \<noteq> None"
    then obtain ds' where "phraseAt unit body [] ds'"
      using phraseAt_Nil_iff [of unit body] by blast
    with Cons.prems(2) show False by fastforce
  qed
  moreover have "phraseAt unit cs pre ds"
    using Cons.prems(1) b by (simp add: phraseAt_Cons)
  moreover have "\<forall>pre' ds'. phraseAt unit cs pre' ds' \<longrightarrow> length pre \<le> length pre'"
  proof (intro allI impI)
    fix pre' ds' assume "phraseAt unit cs pre' ds'"
    then have "phraseAt unit body (c # pre') ds'" using b by (simp add: phraseAt_Cons)
    with Cons.prems(2) show "length pre \<le> length pre'" by fastforce
  qed
  ultimately show ?case using Cons.IH [of cs] b by simp
qed

lemma phraseStartsAt_iff: "phraseStartsAt unit body pre \<longleftrightarrow> (\<exists>ds. phraseAt unit body pre ds)"
proof
  assume "phraseStartsAt unit body pre"
  then show "\<exists>ds. phraseAt unit body pre ds"
    by (auto simp: phraseStartsAt_def)
next
  assume "\<exists>ds. phraseAt unit body pre ds"
  then obtain ds where h: "phraseAt unit body pre ds" by blast
  then obtain post where "body = pre @ ''Please wait '' @ ds @ '' '' @ unit @ post"
    by (auto simp: phraseAt_def prefix_def)
  then have "prefix ds (drop (length pre + 12) body)" by simp
  then show "phraseStartsAt unit body pre"
    unfolding phraseStartsAt_def using h
    by (intro bexI [of _ ds]) (simp_all add: in_set_prefixes)
qed

lemma hasPhrase_iff: "hasPhrase unit body \<longleftrightarrow> (\<exists>pre ds. phraseAt unit body pre ds)"
proof
  assume "hasPhrase unit body"
  then show "\<exists>pre ds. phraseAt unit body pre ds"
    by (auto simp: hasPhrase_def phraseStartsAt_iff)
next
  assume "\<exists>pre ds. phraseAt unit body pre ds"
  then obtain pre ds where h: "phraseAt unit body pre ds" by blast
  then have "prefix pre body"
    by (auto simp: phraseAt_def prefix_def)
  then show "hasPhrase unit body"
    unfolding hasPhrase_def using h
    by (intro bexI [of _ pre]) (auto simp: in_set_prefixes phraseStartsAt_iff)
qed

lemma leftmostPhrase_least:
  assumes "leftmostPhrase unit body pre ds" and "phraseAt unit body pre' ds'"
  shows "length pre \<le> length pre'"
proof (rule ccontr)
  assume "\<not> length pre \<le> length pre'"
  then have less: "length pre' < length pre" by simp
  from assms have "prefix pre body" "prefix pre' body"
    by (auto simp: leftmostPhrase_def phraseAt_def prefix_def)
  with less have "prefix pre' pre" "pre' \<noteq> pre"
    by (auto simp: prefix_def append_eq_append_conv2)
  moreover from assms(2) have "phraseStartsAt unit body pre'"
    by (auto simp: phraseStartsAt_iff)
  ultimately show False
    using assms(1) by (auto simp: leftmostPhrase_def in_set_prefixes)
qed

lemma Find_leftmostPhrase:
  assumes "leftmostPhrase unit body pre ds"
  shows "\<exists>whole. FindStringSubmatch unit body = [whole, ds]"
  using assms leftmostPhrase_least [OF assms]
  by (intro Find_leftmost [of unit body pre ds]) (auto simp: leftmostPhrase_def)

lemma hasPhrase_Find: "hasPhrase unit body \<longleftrightarrow> FindStringSubmatch unit body \<noteq> []"
  using Find_Nil_iff [of unit body] hasPhrase_iff [of unit body] by blast

subsection \<open>Parsing the number and scaling it\<close>

lemma hd_digit: "ds \<noteq> [] \<Longrightarrow> list_all isDigit ds \<Longrightarrow> hd ds \<noteq> CHR ''-'' \<and> hd ds \<noteq> CHR ''+''"
  by (cases ds) auto

lemma ParseInt_digits:
  assumes "ds \<noteq> []" "list_all isDigit ds"
  shows "ParseInt ds = (if decimal ds < 2 ^ 63 then Some (word_of_nat (decimal ds)) else None)"
  using assms hd_digit [OF assms] by (simp add: ParseInt_def)

lemma sint_of_nat_small:
  "m < 2 ^ 63 \<Longrightarrow> sint (word_of_nat m :: 64 word) = int m"
  by (simp add: signed_of_nat signed_take_bit_int_eq_self)

lemma sint_scaled:
  assumes "n * k < 2 ^ 63"
  shows "sint ((word_of_nat n :: 64 word) * word_of_nat k) = int n * int k"
  using sint_of_nat_small [OF assms] by (simp only: of_nat_mult)

lemma extractWaitTime_unfold:
  "extractWaitTime body =
     (let m = FindStringSubmatch ''millisecond'' body;
          s = FindStringSubmatch ''second'' body
      in case (if 2 \<le> length m then ParseInt (m ! 1) else None) of
           Some v \<Rightarrow> v * Millisecond
         | None \<Rightarrow> (case (if 2 \<le> length s then ParseInt (s ! 1) else None) of
                      Some v \<Rightarrow> v * Second | None \<Rightarrow> 0))"
  by (simp add: extractWaitTime_def patterns_def Let_def split: option.splits)


subsection \<open>extractWaitTime on the two phrases\<close>

lemmas eval_extract =
  extractWaitTime_unfold matchAt_def ParseInt_def decimal_def digitVal_def isDigit_def
  Millisecond_def Second_def Let_def

text \<open>
  C3, as stated, fails. The first body holds the phrase \<^verbatim>\<open>Please wait 5 seconds\<close>, yet
  the result is 3 milliseconds: the millisecond pattern is tried first, on the whole body.
  The second body holds a millisecond phrase whose number does not fit an \<^verbatim>\<open>int64\<close>:
  \<^verbatim>\<open>ParseInt\<close> fails, the match is skipped, and the result is zero.
\<close>

theorem extractWaitTime_counterexample:
  "phraseAt ''second'' ''Please wait 5 seconds. Please wait 3 milliseconds.'' [] ''5''
   \<and> extractWaitTime ''Please wait 5 seconds. Please wait 3 milliseconds.'' = 3 * Millisecond
   \<and> 3 * Millisecond \<noteq> 5 * Second
   \<and> phraseAt ''millisecond'' ''Please wait 99999999999999999999 milliseconds'' []
         ''99999999999999999999''
   \<and> extractWaitTime ''Please wait 99999999999999999999 milliseconds'' = 0"
  by (simp add: eval_extract phraseAt_def)

text \<open>
  C3, amended. If the leftmost phrase \<^verbatim>\<open>Please wait N millisecond\<close> of the body has a
  number \<open>N\<close> with \<open>N * 10^6 < 2^63\<close>, the result is exactly \<open>N\<close> milliseconds. If the
  body holds no such phrase, and its leftmost phrase \<^verbatim>\<open>Please wait N second\<close> has a number
  with \<open>N * 10^9 < 2^63\<close>, the result is exactly \<open>N\<close> seconds. If the body holds neither
  phrase, the result is zero.
\<close>

theorem extractWaitTime_leftmost:
  "(leftmostPhrase ''millisecond'' body pre ds \<and> decimal ds * 1000000 < 2 ^ 63
    \<longrightarrow> extractWaitTime body = word_of_nat (decimal ds) * Millisecond
        \<and> sint (extractWaitTime body) = int (decimal ds) * 1000000)
   \<and> (\<not> hasPhrase ''millisecond'' body
      \<and> leftmostPhrase ''second'' body pre ds \<and> decimal ds * 1000000000 < 2 ^ 63
    \<longrightarrow> extractWaitTime body = word_of_nat (decimal ds) * Second
        \<and> sint (extractWaitTime body) = int (decimal ds) * 1000000000)
   \<and> (\<not> hasPhrase ''millisecond'' body \<and> \<not> hasPhrase ''second'' body
    \<longrightarrow> extractWaitTime body = 0)"
proof (intro conjI impI)
  assume h: "leftmostPhrase ''millisecond'' body pre ds \<and> decimal ds * 1000000 < 2 ^ 63"
  then obtain whole where m: "FindStringSubmatch ''millisecond'' body = [whole, ds]"
    using Find_leftmostPhrase [of "''millisecond''" body pre ds] by blast
  from h have d: "ds \<noteq> []" "list_all isDigit ds"
    by (simp_all add: leftmostPhrase_def phraseAt_def)
  from h have "decimal ds < 2 ^ 63" by simp
  with m d show e: "extractWaitTime body = word_of_nat (decimal ds) * Millisecond"
    by (simp add: extractWaitTime_unfold ParseInt_digits)
  from h have "sint ((word_of_nat (decimal ds) :: 64 word) * word_of_nat 1000000)
      = int (decimal ds) * int 1000000"
    by (intro sint_scaled) simp
  then show "sint (extractWaitTime body) = int (decimal ds) * 1000000"
    by (simp add: e Millisecond_def)
next
  assume h: "\<not> hasPhrase ''millisecond'' body
      \<and> leftmostPhrase ''second'' body pre ds \<and> decimal ds * 1000000000 < 2 ^ 63"
  then have n: "FindStringSubmatch ''millisecond'' body = []"
    by (simp add: hasPhrase_Find)
  from h obtain whole where m: "FindStringSubmatch ''second'' body = [whole, ds]"
    using Find_leftmostPhrase [of "''second''" body pre ds] by blast
  from h have d: "ds \<noteq> []" "list_all isDigit ds"
    by (simp_all add: leftmostPhrase_def phraseAt_def)
  from h have "decimal ds < 2 ^ 63" by simp
  with n m d show e: "extractWaitTime body = word_of_nat (decimal ds) * Second"
    by (simp add: extractWaitTime_unfold ParseInt_digits)
  from h have "sint ((word_of_nat (decimal ds) :: 64 word) * word_of_nat 1000000000)
      = int (decimal ds) * int 1000000000"
    by (intro sint_scaled) simp
  then show "sint (extractWaitTime body) = int (decimal ds) * 1000000000"
    by (simp add: e Second_def)
next
  assume "\<not> hasPhrase ''millisecond'' body \<and> \<not> hasPhrase ''second'' body"
  then have "FindStringSubmatch ''millisecond'' body = []"
    "FindStringSubmatch ''second'' body = []"
    by (simp_all add: hasPhrase_Find)
  then show "extractWaitTime body = 0"
    by (simp add: extractWaitTime_unfold)
qed

text \<open>
  C3, witness: the three cases of the amended claim at bodies of 20 milliseconds, 2 seconds
  and no phrase.
\<close>

theorem extractWaitTime_leftmost_witness:
  "(leftmostPhrase ''millisecond'' ''x Please wait 20 milliseconds. 0/300 remaining.'' ''x '' ''20''
     \<and> decimal ''20'' * 1000000 < 2 ^ 63
     \<and> sint (extractWaitTime ''x Please wait 20 milliseconds. 0/300 remaining.'') = 20000000)
   \<and> (\<not> hasPhrase ''millisecond'' ''x Please wait 2 seconds''
     \<and> leftmostPhrase ''second'' ''x Please wait 2 seconds'' ''x '' ''2''
     \<and> decimal ''2'' * 1000000000 < 2 ^ 63
     \<and> sint (extractWaitTime ''x Please wait 2 seconds'') = 2000000000)
   \<and> (\<not> hasPhrase ''millisecond'' ''Rate limited'' \<and> \<not> hasPhrase ''second'' ''Rate limited''
     \<and> extractWaitTime ''Rate limited'' = 0)"
proof -
  have a1: "leftmostPhrase ''millisecond'' ''x Please wait 20 milliseconds. 0/300 remaining.'' ''x '' ''20''"
    by (simp add: leftmostPhrase_def phraseStartsAt_def phraseAt_def isDigit_def)
  have a3: "decimal ''20'' * 1000000 < 2 ^ 63"
    by (simp add: decimal_def digitVal_def)
  have a4: "decimal ''20'' = 20" by (simp add: decimal_def digitVal_def)
  have b0: "\<not> hasPhrase ''millisecond'' ''x Please wait 2 seconds''"
    by (simp add: hasPhrase_Find matchAt_def isDigit_def)
  have b1: "leftmostPhrase ''second'' ''x Please wait 2 seconds'' ''x '' ''2''"
    by (simp add: leftmostPhrase_def phraseStartsAt_def phraseAt_def isDigit_def)
  have b3: "decimal ''2'' * 1000000000 < 2 ^ 63"
    by (simp add: decimal_def digitVal_def)
  have b4: "decimal ''2'' = 2" by (simp add: decimal_def digitVal_def)
  have c1: "\<not> hasPhrase ''millisecond'' ''Rate limited''"
    by (simp add: hasPhrase_Find matchAt_def)
  have c2: "\<not> hasPhrase ''second'' ''Rate limited''"
    by (simp add: hasPhrase_Find matchAt_def)
  note t1 = extractWaitTime_leftmost
    [of "''x Please wait 20 milliseconds. 0/300 remaining.''" "''x ''" "''20''", THEN conjunct1, rule_format]
  note t2 = extractWaitTime_leftmost
    [of "''x Please wait 2 seconds''" "''x ''" "''2''", THEN conjunct2, THEN conjunct1, rule_format]
  note t3 = extractWaitTime_leftmost
    [of "''Rate limited''", THEN conjunct2, THEN conjunct2, rule_format]
  from t1 [OF conjI [OF a1 a3]] a4
  have r1: "sint (extractWaitTime ''x Please wait 20 milliseconds. 0/300 remaining.'') = 20000000"
    by (simp add: Millisecond_def)
  from t2 [OF conjI [OF b0 conjI [OF b1 b3]]] b4
  have r2: "sint (extractWaitTime ''x Please wait 2 seconds'') = 2000000000"
    by (simp add: Second_def)
  from t3 [OF conjI [OF c1 c2]]
  have r3: "extractWaitTime ''Rate limited'' = 0" .
  from a1 a3 r1 b0 b1 b3 r2 c1 c2 r3 show ?thesis by blast
qed

subsection \<open>The decimal digits of fmt\<close>







subsection \<open>One iteration, and the loop\<close>


lemma attemptOnce_nil:
  assumes "Transport t = Some rt" "rt (Clone req (ctx req)) w = (None, None)"
  shows "attemptOnce E t req attempt w = (Leave Panic, dispatched (Clone req (ctx req)) w)"
  using assms by (simp add: attemptOnce_def Let_def)

lemma attemptOnce_other:
  assumes "Transport t = Some rt" "rt (Clone req (ctx req)) w = (Some r, None)"
    "StatusCode r \<noteq> 429"
  shows "attemptOnce E t req attempt w
    = (Leave (Return (Some r) None), dispatched (Clone req (ctx req)) w)"
  using assms by (simp add: attemptOnce_def Let_def StatusTooManyRequests_def)


lemma attemptOnce_retry:
  assumes "Transport t = Some rt" "rt (Clone req (ctx req)) w = (Some r, None)"
    "StatusCode r = 429" "BodyErr r = None" "attempt < MaxRetries t"
  shows "attemptOnce E t req attempt w
    = (Continue (drained r),
       sleep (computeWait E (drained r) (Body r) attempt)
         (printf (computeWait E (drained r) (Body r) attempt) (attempt + 1) (MaxRetries t)
            (dispatched (Clone req (ctx req)) w)))"
  using assms
  by (simp add: attemptOnce_def Let_def StatusTooManyRequests_def ReadAll_def Close_def
      drained_def)

lemma attemptOnce_exhausted:
  assumes "Transport t = Some rt" "rt (Clone req (ctx req)) w = (Some r, None)"
    "StatusCode r = 429" "BodyErr r = None" "\<not> attempt < MaxRetries t"
  shows "attemptOnce E t req attempt w
    = (Leave (Return (Some (drained r)) (Some (RateLimitExceeded (MaxRetries t)))),
       dispatched (Clone req (ctx req)) w)"
  using assms
  by (simp add: attemptOnce_def Let_def StatusTooManyRequests_def ReadAll_def Close_def
      drained_def)


lemma Header_drained [simp]: "Header (drained r) = Header r"
  by (simp add: drained_def)

lemma retryLoop_Leave:
  "attempt \<le> MaxRetries t \<Longrightarrow> attemptOnce E t req attempt w = (Leave res, w')
   \<Longrightarrow> retryLoop E t req attempt resp err w = (res, w')"
  by (simp add: retryLoop.simps)

lemma retryLoop_Continue:
  "attempt \<le> MaxRetries t \<Longrightarrow> attemptOnce E t req attempt w = (Continue r, w')
   \<Longrightarrow> retryLoop E t req attempt resp err w = retryLoop E t req (attempt + 1) (Some r) None w'"
  by (simp add: retryLoop.simps)



lemma dispatches_simps [simp]:
  "dispatches (dispatched r w) = Suc (dispatches w)"
  "dispatches (printf d a m w) = dispatches w"
  "dispatches (sleep d w) = dispatches w"
  by (simp_all add: dispatches_def dispatched_def printf_def sleep_def)

lemma scripted_single [simp]: "scripted [x] r w = x"
  by (simp add: scripted_def)

lemma setDefaults_fields:
  "Transport (setDefaults E t) = Some (delegate E t)"
  "MaxRetries (setDefaults E t) = retryCeiling t"
  by (auto simp: setDefaults_def delegate_def retryCeiling_def Let_def split: option.splits)


lemma RoundTrip_loop:
  "RoundTrip E t req w =
     (fst (retryLoop E (setDefaults E t) req 0 None None w), setDefaults E t,
      snd (retryLoop E (setDefaults E t) req 0 None None w))"
  by (simp add: RoundTrip_def Let_def split: prod.splits)







subsection \<open>The computed wait\<close>


lemma addBuffer_word: "addBuffer w = word_of_int (sint w + sint w sdiv 10 + 50000000)"
  by (simp add: addBuffer_def quo_def Millisecond_def)


lemma computeWait_sources:
  "computeWait E (drained r) body attempt =
     addBuffer
       (if extractWaitTime body \<noteq> 0 then extractWaitTime body
        else case ParseFloat E (Get (Header r) ''Retry-After'') of
               Some s \<Rightarrow> if Get (Header r) ''Retry-After'' \<noteq> [] \<and> secondsToDuration E s \<noteq> 0
                         then secondsToDuration E s else backoff attempt
             | None \<Rightarrow> backoff attempt)"
  by (simp add: computeWait_def fallbackWait_def retryAfterWait_def Let_def split: option.splits)

subsection \<open>The default retry ceiling (C1)\<close>

text \<open>
  C1, as stated, fails. After a call on a transport whose \<^verbatim>\<open>MaxRetries\<close> is unset, the
  field holds 5, not 100; and \<^verbatim>\<open>newRateLimitHTTPClient\<close> configures 100, not 50.
\<close>

theorem default_ceiling_counterexample:
  "MaxRetries (fst (snd (RoundTrip wholeSeconds \<lparr>Transport = None, MaxRetries = 0\<rparr>
      (getReq None) start))) = 5
   \<and> MaxRetries (fst (snd (RoundTrip wholeSeconds \<lparr>Transport = None, MaxRetries = 0\<rparr>
      (getReq None) start))) \<noteq> 100
   \<and> MaxRetries (newRateLimitHTTPClient wholeSeconds) = 100
   \<and> MaxRetries (newRateLimitHTTPClient wholeSeconds) \<noteq> 50"
  by (simp add: RoundTrip_loop setDefaults_def newRateLimitHTTPClient_def)

text \<open>
  C1, amended. When \<^verbatim>\<open>MaxRetries\<close> is unset (zero), \<^verbatim>\<open>RoundTrip\<close> uses a default retry
  ceiling of 5: the call is the call of the same transport configured with 5, and it leaves
  5 in the field. (Nothing is said of the ceiling of the production client.)
\<close>

theorem default_ceiling_is_5:
  "MaxRetries t = 0 \<longrightarrow>
     RoundTrip E t req w = RoundTrip E (t\<lparr>MaxRetries := 5\<rparr>) req w
     \<and> MaxRetries (fst (snd (RoundTrip E t req w))) = 5"
proof
  assume "MaxRetries t = 0"
  then have "setDefaults E t = setDefaults E (t\<lparr>MaxRetries := 5\<rparr>)"
    "MaxRetries (setDefaults E t) = 5"
    by (simp_all add: setDefaults_def Let_def)
  then show "RoundTrip E t req w = RoundTrip E (t\<lparr>MaxRetries := 5\<rparr>) req w
     \<and> MaxRetries (fst (snd (RoundTrip E t req w))) = 5"
    by (simp add: RoundTrip_loop)
qed

text \<open>
  C1, witness: a transport with \<^verbatim>\<open>MaxRetries\<close> 0 behaves as the one with 5.
\<close>

theorem default_ceiling_is_5_witness:
  "MaxRetries (alwaysLimited 0) = 0
   \<and> RoundTrip wholeSeconds (alwaysLimited 0) (getReq None) start
       = RoundTrip wholeSeconds (alwaysLimited 5) (getReq None) start
   \<and> MaxRetries (fst (snd (RoundTrip wholeSeconds (alwaysLimited 0) (getReq None) start))) = 5"
proof -
  have a: "MaxRetries (alwaysLimited 0) = 0" by (simp add: alwaysLimited_def)
  have b: "(alwaysLimited 0)\<lparr>MaxRetries := 5\<rparr> = alwaysLimited 5" by (simp add: alwaysLimited_def)
  from default_ceiling_is_5 [of "alwaysLimited 0" wholeSeconds "getReq None" start, rule_format, OF a] a
  show ?thesis unfolding b by blast
qed

subsection \<open>Exhausting the retries (C2)\<close>





subsection \<open>The fallback schedule (C4)\<close>

text \<open>
  Up to attempt 36 the fallback wait is \<open>100 ms * 2 ^ attempt\<close> and grows strictly.
\<close>

lemma backoff_in_range:
  assumes "0 \<le> attempt" "attempt \<le> 36"
  shows "sint (backoff attempt) = 100000000 * 2 ^ nat attempt"
proof -
  from assms have m: "nat (attempt mod 2 ^ 64) = nat attempt" by simp
  have "(2::nat) ^ nat attempt \<le> 2 ^ 36"
    using assms by (intro power_increasing) simp_all
  then have small: "100000000 * 2 ^ nat attempt < (2::nat) ^ 63" by simp
  have "backoff attempt = word_of_nat (100000000 * 2 ^ nat attempt)"
    unfolding backoff_def m by (simp add: Millisecond_def push_bit_eq_mult)
  with sint_of_nat_small [OF small] show ?thesis by simp
qed

lemma backoff_increasing_in_range:
  assumes "0 \<le> i" "i < j" "j \<le> 36"
  shows "sint (backoff i) < sint (backoff j)"
proof -
  from assms have "(2::int) ^ nat i < 2 ^ nat j"
    by (intro power_strict_increasing) simp_all
  with assms show ?thesis by (simp add: backoff_in_range)
qed

text \<open>
  C4. The fallback wait of attempt \<open>i\<close> is meant to be \<open>100 ms * 2 ^ i\<close>, strictly
  increasing up to the retry ceiling. The 64-bit product wraps: the wait of attempt 37 is
  negative and so less than that of attempt 36, and from attempt 56 on it is zero. In an
  iteration at attempt 37 under the ceiling 100 of \<^verbatim>\<open>newRateLimitHTTPClient\<close>, the
  buffered wait handed to \<^verbatim>\<open>time.Sleep\<close> is negative and the clock does not advance.
\<close>

theorem backoff_wraps:
  "sint (backoff 36) = 6871947673600000000
   \<and> sint (backoff 37) = - 4702848726509551616
   \<and> sint (backoff 37) < sint (backoff 36)
   \<and> sint (backoff 37) \<noteq> 100000000 * 2 ^ 37
   \<and> backoff 56 = 0 \<and> backoff 57 = 0
   \<and> snd (attemptOnce wholeSeconds (alwaysLimited 100) (getReq None) 37 start)
       = \<lparr>clock = 0,
          log = [Dispatch (getReq None) 0, Printf (- 5173133599110506777) 38 100,
                 Sleep (- 5173133599110506777)]\<rparr>"
proof -
  have b: "backoff 37 = - 4702848726509551616" "sint (backoff 36) = 6871947673600000000"
    "backoff 56 = 0" "backoff 57 = 0"
    by (simp_all add: backoff_def Millisecond_def)
  have s: "sint (- 4702848726509551616 :: Duration) = - 4702848726509551616"
    by simp
  let ?r = "tooMany [] ''{}''"
  have e: "extractWaitTime (Body ?r) = 0"
    by (simp add: tooMany_def eval_extract)
  have w: "computeWait wholeSeconds (drained ?r) (Body ?r) 37 = - 5173133599110506777"
    unfolding computeWait_sources e
    by (simp add: b addBuffer_word s Get_def tooMany_def wholeSeconds_def signed_divide_int_def)
  have "attemptOnce wholeSeconds (alwaysLimited 100) (getReq None) 37 start
      = (Continue (drained ?r),
         sleep (computeWait wholeSeconds (drained ?r) (Body ?r) 37)
           (printf (computeWait wholeSeconds (drained ?r) (Body ?r) 37) (37 + 1)
              (MaxRetries (alwaysLimited 100))
              (dispatched (Clone (getReq None) (ctx (getReq None))) start)))"
    by (rule attemptOnce_retry [where rt = "scripted [(Some ?r, None)]"])
       (simp_all add: alwaysLimited_def tooMany_def)
  then show ?thesis
    unfolding w
    by (simp add: b s sleep_def printf_def dispatched_def start_def Clone_def alwaysLimited_def)
qed

subsection \<open>A context that expires during a wait (C5)\<close>




subsection \<open>The fields of the receiver (C6)\<close>

text \<open>
  C6, as stated, fails. A call on a transport with a nil delegate and \<^verbatim>\<open>MaxRetries\<close> 0
  leaves \<^verbatim>\<open>http.DefaultTransport\<close> and 5 in the fields.
\<close>

theorem RoundTrip_writes_defaults_counterexample:
  "MaxRetries (fst (snd (RoundTrip wholeSeconds \<lparr>Transport = None, MaxRetries = 0\<rparr>
      (getReq None) start))) = 5
   \<and> MaxRetries \<lparr>Transport = None, MaxRetries = 0\<rparr> = 0
   \<and> Transport (fst (snd (RoundTrip wholeSeconds \<lparr>Transport = None, MaxRetries = 0\<rparr>
      (getReq None) start))) = Some refused
   \<and> Transport \<lparr>Transport = None, MaxRetries = 0\<rparr> = None"
  by (simp add: RoundTrip_loop setDefaults_def wholeSeconds_def)

text \<open>
  C6, amended. \<^verbatim>\<open>RoundTrip\<close> writes the defaults into its receiver and nothing else: after
  a call, \<^verbatim>\<open>Transport\<close> is \<^verbatim>\<open>http.DefaultTransport\<close> if it was nil and unchanged
  otherwise, \<^verbatim>\<open>MaxRetries\<close> is 5 if it was 0 and unchanged otherwise. So a call leaves
  the fields unchanged when the delegate is set and \<^verbatim>\<open>MaxRetries\<close> is not 0, and every
  call after the first leaves them unchanged.
\<close>

theorem RoundTrip_receiver:
  "Transport (fst (snd (RoundTrip E t req w)))
     = (if Transport t = None then Some (DefaultTransport E) else Transport t)
   \<and> MaxRetries (fst (snd (RoundTrip E t req w)))
     = (if MaxRetries t = 0 then 5 else MaxRetries t)
   \<and> (Transport t \<noteq> None \<and> MaxRetries t \<noteq> 0 \<longrightarrow> fst (snd (RoundTrip E t req w)) = t)
   \<and> fst (snd (RoundTrip E (fst (snd (RoundTrip E t req w))) req' w'))
       = fst (snd (RoundTrip E t req w))"
  by (simp add: RoundTrip_loop setDefaults_def Let_def)

text \<open>
  C6, witness: a transport with a delegate and \<^verbatim>\<open>MaxRetries\<close> 3 is left as it was.
\<close>

theorem RoundTrip_receiver_witness:
  "Transport (alwaysLimited 3) \<noteq> None \<and> MaxRetries (alwaysLimited 3) \<noteq> 0
   \<and> fst (snd (RoundTrip wholeSeconds (alwaysLimited 3) (getReq None) start)) = alwaysLimited 3"
proof -
  have a: "Transport (alwaysLimited 3) \<noteq> None \<and> MaxRetries (alwaysLimited 3) \<noteq> 0"
    by (simp add: alwaysLimited_def)
  from RoundTrip_receiver [of wholeSeconds "alwaysLimited 3" "getReq None" start,
      THEN conjunct2, THEN conjunct2, THEN conjunct1, rule_format, OF a] a
  show ?thesis by simp
qed

subsection \<open>What the caller observes (C7)\<close>





subsection \<open>The safety buffer (C8)\<close>



subsection \<open>Responses other than 429 (C9)\<close>

text \<open>
  C9. When the delegate answers an attempt with a response whose status is not 429, the
  loop returns that very response with no error, and the world has gained this one
  dispatch only: no sleep, no progress line, no further dispatch. In particular, when the
  first attempt is so answered, \<^verbatim>\<open>RoundTrip\<close> returns the response after one dispatch.
\<close>

theorem non429_returned_at_once:
  "(Transport t = Some rt \<and> attempt \<le> MaxRetries t
      \<and> rt (Clone req (ctx req)) w = (Some r, None) \<and> StatusCode r \<noteq> 429
    \<longrightarrow> retryLoop E t req attempt resp err w
          = (Return (Some r) None, dispatched (Clone req (ctx req)) w))
   \<and> (0 \<le> MaxRetries t
      \<and> delegate E t (Clone req (ctx req)) w = (Some r, None) \<and> StatusCode r \<noteq> 429
    \<longrightarrow> RoundTrip E t req w
          = (Return (Some r) None, setDefaults E t, dispatched (Clone req (ctx req)) w)
        \<and> dispatches (snd (snd (RoundTrip E t req w))) = dispatches w + 1
        \<and> log (snd (snd (RoundTrip E t req w)))
            = log w @ [Dispatch (Clone req (ctx req)) (clock w)])"
proof (rule conjI; rule impI)
  assume h: "Transport t = Some rt \<and> attempt \<le> MaxRetries t
      \<and> rt (Clone req (ctx req)) w = (Some r, None) \<and> StatusCode r \<noteq> 429"
  then have "attemptOnce E t req attempt w
      = (Leave (Return (Some r) None), dispatched (Clone req (ctx req)) w)"
    by (intro attemptOnce_other [where rt = rt]) simp_all
  with h show "retryLoop E t req attempt resp err w
      = (Return (Some r) None, dispatched (Clone req (ctx req)) w)"
    by (intro retryLoop_Leave) simp_all
next
  assume h: "0 \<le> MaxRetries t
      \<and> delegate E t (Clone req (ctx req)) w = (Some r, None) \<and> StatusCode r \<noteq> 429"
  let ?t = "setDefaults E t"
  from h have le: "0 \<le> MaxRetries ?t"
    by (simp add: setDefaults_fields retryCeiling_def)
  from h have "attemptOnce E ?t req 0 w
      = (Leave (Return (Some r) None), dispatched (Clone req (ctx req)) w)"
    by (intro attemptOnce_other [where rt = "delegate E t"]) (simp_all add: setDefaults_fields)
  from retryLoop_Leave [OF le this]
  have "retryLoop E ?t req 0 None None w
      = (Return (Some r) None, dispatched (Clone req (ctx req)) w)" .
  then show "RoundTrip E t req w
          = (Return (Some r) None, setDefaults E t, dispatched (Clone req (ctx req)) w)
        \<and> dispatches (snd (snd (RoundTrip E t req w))) = dispatches w + 1
        \<and> log (snd (snd (RoundTrip E t req w)))
            = log w @ [Dispatch (Clone req (ctx req)) (clock w)]"
    by (simp add: RoundTrip_loop dispatched_def dispatches_def)
qed

text \<open>
  C9, witness: a delegate that answers 500, at attempt 2 of the loop and for a call.
\<close>

theorem non429_returned_at_once_witness:
  "Transport \<lparr>Transport = Some (scripted [(Some serverError, None)]), MaxRetries = 5\<rparr>
     = Some (scripted [(Some serverError, None)])
   \<and> (2::int) \<le> MaxRetries \<lparr>Transport = Some (scripted [(Some serverError, None)]), MaxRetries = 5\<rparr>
   \<and> scripted [(Some serverError, None)] (Clone (getReq None) (ctx (getReq None))) start
       = (Some serverError, None)
   \<and> StatusCode serverError \<noteq> 429
   \<and> retryLoop wholeSeconds \<lparr>Transport = Some (scripted [(Some serverError, None)]), MaxRetries = 5\<rparr>
        (getReq None) 2 None None start
       = (Return (Some serverError) None, dispatched (getReq None) start)
   \<and> RoundTrip wholeSeconds \<lparr>Transport = Some (scripted [(Some serverError, None)]), MaxRetries = 5\<rparr>
        (getReq None) start
       = (Return (Some serverError) None,
          \<lparr>Transport = Some (scripted [(Some serverError, None)]), MaxRetries = 5\<rparr>,
          \<lparr>clock = 0, log = [Dispatch (getReq None) 0]\<rparr>)"
proof -
  let ?rt = "scripted [(Some serverError, None)]"
  let ?t = "\<lparr>Transport = Some ?rt, MaxRetries = 5\<rparr>"
  have a: "Transport ?t = Some ?rt" "(2::int) \<le> MaxRetries ?t" "0 \<le> MaxRetries ?t"
    "?rt (Clone (getReq None) (ctx (getReq None))) start = (Some serverError, None)"
    "delegate wholeSeconds ?t (Clone (getReq None) (ctx (getReq None))) start
       = (Some serverError, None)"
    "StatusCode serverError \<noteq> 429"
    by (simp_all add: delegate_def serverError_def)
  have c: "Clone (getReq None) (ctx (getReq None)) = getReq None"
    by (simp add: Clone_def)
  have d: "setDefaults wholeSeconds ?t = ?t" by (simp add: setDefaults_def)
  note th = non429_returned_at_once [of ?t ?rt _ "getReq None" start serverError wholeSeconds]
  from th [of 2 None None, THEN conjunct1, rule_format, OF conjI [OF a(1) conjI [OF a(2) conjI [OF a(4) a(6)]]]]
    th [of 0 None None, THEN conjunct2, rule_format, OF conjI [OF a(3) conjI [OF a(5) a(6)]]]
    a show ?thesis
    unfolding c d by (simp add: dispatched_def start_def)
qed

subsection \<open>A Retry-After header that is not a number (C10)\<close>

text \<open>
  C10. Let an attempt get a 429 response that can be read, whose body holds neither
  phrase and whose \<^verbatim>\<open>Retry-After\<close> header is present but does not parse as a float. Then
  the header is ignored: the wait is the buffered fallback of the attempt, and the loop goes
  on as for a response with no header (it sleeps and retries below the ceiling, and returns
  the exhaustion error at the ceiling); the parse error is reported nowhere.
\<close>

theorem unparsable_RetryAfter_ignored:
  assumes "Transport t = Some rt" "rt (Clone req (ctx req)) w = (Some r, None)"
    "StatusCode r = 429" "BodyErr r = None" "attempt \<le> MaxRetries t"
    and "\<not> hasPhrase ''millisecond'' (Body r)" "\<not> hasPhrase ''second'' (Body r)"
    and "Get (Header r) ''Retry-After'' = v" "v \<noteq> []" "ParseFloat E v = None"
    and "d = addBuffer (backoff attempt)"
    and "w1 = dispatched (Clone req (ctx req)) w"
  shows "computeWait E (drained r) (Body r) attempt = d
         \<and> retryLoop E t req attempt resp err w
           = (if attempt < MaxRetries t
              then retryLoop E t req (attempt + 1) (Some (drained r)) None
                     (sleep d (printf d (attempt + 1) (MaxRetries t) w1))
              else (Return (Some (drained r)) (Some (RateLimitExceeded (MaxRetries t))), w1))"
proof -
  from assms(6,7) have "extractWaitTime (Body r) = 0"
    by (simp add: extractWaitTime_unfold hasPhrase_Find)
  with assms(8,10,11) have d: "computeWait E (drained r) (Body r) attempt = d"
    by (simp add: computeWait_sources)
  show ?thesis
  proof (cases "attempt < MaxRetries t")
    case True
    from retryLoop_Continue [OF assms(5) attemptOnce_retry [OF assms(1-4) True, of E]] d True
    show ?thesis by (simp add: assms(12))
  next
    case False
    from retryLoop_Leave [OF assms(5) attemptOnce_exhausted [OF assms(1-4) False, of E]] d False
    show ?thesis by (simp add: assms(12))
  qed
qed

text \<open>
  C10, witness: a header holding an HTTP-date, at the first attempt.
\<close>

theorem unparsable_RetryAfter_ignored_witness:
  "Transport \<lparr>Transport = Some (scripted [(Some dated, None)]), MaxRetries = 5\<rparr>
     = Some (scripted [(Some dated, None)])
   \<and> scripted [(Some dated, None)] (Clone (getReq None) (ctx (getReq None))) start
       = (Some dated, None)
   \<and> StatusCode dated = 429 \<and> BodyErr dated = None
   \<and> (0::int) \<le> MaxRetries \<lparr>Transport = Some (scripted [(Some dated, None)]), MaxRetries = 5\<rparr>
   \<and> \<not> hasPhrase ''millisecond'' (Body dated) \<and> \<not> hasPhrase ''second'' (Body dated)
   \<and> Get (Header dated) ''Retry-After'' = ''Wed, 21 Oct 2015 07:28:00 GMT''
   \<and> ParseFloat wholeSeconds ''Wed, 21 Oct 2015 07:28:00 GMT'' = None
   \<and> addBuffer (backoff 0) = 160000000
   \<and> computeWait wholeSeconds (drained dated) (Body dated) 0 = 160000000
   \<and> retryLoop wholeSeconds \<lparr>Transport = Some (scripted [(Some dated, None)]), MaxRetries = 5\<rparr>
        (getReq None) 0 None None start
       = retryLoop wholeSeconds \<lparr>Transport = Some (scripted [(Some dated, None)]), MaxRetries = 5\<rparr>
           (getReq None) 1 (Some (drained dated)) None
           (sleep 160000000 (printf 160000000 1 5 (dispatched (getReq None) start)))"
proof -
  let ?rt = "scripted [(Some dated, None)]"
  let ?t = "\<lparr>Transport = Some ?rt, MaxRetries = 5\<rparr>"
  let ?v = "''Wed, 21 Oct 2015 07:28:00 GMT''"
  have a: "Transport ?t = Some ?rt"
    "?rt (Clone (getReq None) (ctx (getReq None))) start = (Some dated, None)"
    "StatusCode dated = 429" "BodyErr dated = None" "(0::int) \<le> MaxRetries ?t"
    by (simp_all add: dated_def tooMany_def)
  have b: "\<not> hasPhrase ''millisecond'' (Body dated)" "\<not> hasPhrase ''second'' (Body dated)"
    by (simp_all add: hasPhrase_Find matchAt_def dated_def tooMany_def)
  have h: "Get (Header dated) ''Retry-After'' = ?v" "?v \<noteq> []"
    "ParseFloat wholeSeconds ?v = None"
    by (simp_all add: Get_def dated_def tooMany_def wholeSeconds_def isDigit_def)
  have d: "(160000000 :: Duration) = addBuffer (backoff 0)"
    by (simp add: addBuffer_def backoff_def quo_def Millisecond_def signed_divide_int_def)
  have c: "Clone (getReq None) (ctx (getReq None)) = getReq None"
    by (simp add: Clone_def)
  from unparsable_RetryAfter_ignored [OF a b h d refl, of None None] a b h d
  show ?thesis
    unfolding c by simp
qed

end
